theory Spec2Isabelle
  imports Main "HOL-Library.Char_ord" "HOL-Library.List_Lexorder" "HOL-Library.Multiset"
begin

section \<open>Python values used by the backend\<close>

text \<open>
  A Python \<open>str\<close> is modelled as a \<open>string\<close> whose characters are code points below 256,
  compared the way Python compares strings: lexicographically by code point
  (\<open>HOL-Library.Char_ord\<close> with \<open>HOL-Library.List_Lexorder\<close>).  Exceptions are values of
  the type \<open>exn\<close>; a function that may raise returns \<open>exn + 'a\<close> with \<open>Inl\<close> for the
  exception.  Only subclasses of \<open>Exception\<close> occur.
\<close>

datatype exn =
    ValueError
  | JSONDecodeError
  | RuntimeError
  | KeyError
  | HTTPError
  | ConnectionError
  | OSError
  | SMTPException

text \<open>
  \<open>json.JSONDecodeError\<close> is declared in the standard library as a subclass of
  \<open>ValueError\<close>, so a handler \<open>except ValueError\<close> catches both.
\<close>

fun is_ValueError :: "exn \<Rightarrow> bool" where
  "is_ValueError ValueError = True"
| "is_ValueError JSONDecodeError = True"
| "is_ValueError _ = False"

text \<open>\<open>str.isspace\<close> on one code point below 256; it is also the class \<open>\s\<close> of \<open>re\<close>.\<close>

definition py_isspace :: "char \<Rightarrow> bool" where
  "py_isspace c =
     (let n = (of_char c :: nat)
      in (9 \<le> n \<and> n \<le> 13) \<or> (28 \<le> n \<and> n \<le> 32) \<or> n = 133 \<or> n = 160)"



definition digit_char :: "nat \<Rightarrow> char" where
  "digit_char n = ''0123456789'' ! (n mod 10)"

text \<open>\<open>str(n)\<close> for an \<open>int\<close>.\<close>

function str_nat :: "nat \<Rightarrow> string" where
  "str_nat n = (if n < 10 then [digit_char n] else str_nat (n div 10) @ [digit_char n])"
  by pat_completeness auto
termination
  by (relation "measure id") auto

declare str_nat.simps [simp del]

definition str_int :: "int \<Rightarrow> string" where
  "str_int i = (if i < 0 then CHR ''-'' # str_nat (nat (- i)) else str_nat (nat i))"




text \<open>\<open>max(xs)\<close> of a non-empty list; the empty case is guarded by every caller.\<close>

fun py_max :: "int list \<Rightarrow> int option" where
  "py_max [] = None"
| "py_max (x # xs) = Some (fold max xs x)"

text \<open>\<open>s.rstrip('/')\<close>\<close>

definition rstrip_slash :: "string \<Rightarrow> string" where
  "rstrip_slash s = rev (dropWhile (\<lambda>c. c = CHR ''/'') (rev s))"

text \<open>Removing a literal prefix, and the text after the first occurrence of a literal.\<close>

fun strip_prefix :: "string \<Rightarrow> string \<Rightarrow> string option" where
  "strip_prefix [] s = Some s"
| "strip_prefix (p # ps) [] = None"
| "strip_prefix (p # ps) (c # cs) = (if p = c then strip_prefix ps cs else None)"

fun after_first :: "string \<Rightarrow> string \<Rightarrow> string option" where
  "after_first l [] = strip_prefix l []"
| "after_first l (c # cs) =
     (case strip_prefix l (c # cs) of Some r \<Rightarrow> Some r | None \<Rightarrow> after_first l cs)"

text \<open>\<open>needle in haystack\<close> for two strings.\<close>

definition contains :: "string \<Rightarrow> string \<Rightarrow> bool" where
  "contains needle hay = (after_first needle hay \<noteq> None)"

section \<open>The outside world\<close>

text \<open>
  A catalog entry is a \<open>dict\<close> decoded from the listing.  The code reads the keys
  \<open>number\<close> (an \<open>int\<close>) and \<open>name\<close> (a \<open>str\<close>), each of which may be absent
  (\<open>entry.get\<close>); the remaining keys are kept in \<open>extra\<close>.
\<close>

record entry =
  number :: "int option"
  name :: "string option"
  extra :: "(string \<times> string) list"

text \<open>One page descriptor and the \<open>window.__data\<close> object of a chapter page.\<close>

record page =
  url :: "string option"

record chapter_info =
  ch_name :: "string option"
  ch_pages :: "page list option"

record data_obj =
  d_chapter :: "chapter_info option"

datatype response = NoResponse | Response nat string

record mail =
  smtp_server :: string
  smtp_port :: string
  username :: string
  password :: string
  sender :: string
  recipient :: string
  subject :: string
  body :: string

text \<open>
  A push subscription as the browser sends it: a \<open>dict\<close> that may or may not have the
  keys \<open>endpoint\<close> and \<open>keys\<close>, the latter a \<open>dict\<close> that may or may not have
  \<open>p256dh\<close> and \<open>auth\<close>.
\<close>

record sub_keys =
  p256dh :: "string option"
  auth :: "string option"

record subscription =
  endpoint :: "string option"
  keys :: "sub_keys option"

text \<open>
  The payload of a push message: title, body and the \<open>data\<close> dictionary (keys with their
  rendered values).  Its other fields (icon, badge, tag) are constants.
\<close>

record push_payload =
  p_title :: string
  p_body :: string
  p_data :: "(string \<times> string) list"

text \<open>
  What \<open>webpush\<close> does for one subscription: it returns, raises \<open>WebPushException\<close>
  carrying a response (or none) of which the code reads the truth value and the status
  code, or raises something else.
\<close>

datatype push_outcome =
    Delivered
  | PushRejected "(bool \<times> nat) option"
  | PushCrashed

text \<open>
  A path is the list of its components, as \<open>pathlib\<close> keeps them.  A book is what
  \<open>_create_epub\<close> hands to \<open>epub.write_epub\<close>: the chapter number and title that make
  its title, language and author, the image items (file name, media type, content), the
  pages of the spine after \<open>nav\<close> (file name, title, image shown), and the table of
  contents (target, title, uid).
\<close>

type_synonym path = "string list"

record epub_page =
  page_file_name :: string
  page_title :: string
  page_img_src :: string

record epub_book =
  book_chapter :: int
  book_chapter_title :: string
  book_language :: string
  book_author :: string
  book_images :: "(string \<times> string \<times> string) list"
  book_spine :: "epub_page list"
  book_toc :: "(string \<times> string \<times> string) list"

text \<open>A node of the file system: a directory, a file with its content, or a written book.\<close>

datatype node = Dir | File string | Package epub_book

text \<open>
  The environment answers what the program cannot decide: the response to a request, the
  result of \<open>json.loads\<close> on the two embedded blocks (\<open>None\<close> for \<open>JSONDecodeError\<close>),
  whether sending a mail raises, what \<open>webpush\<close> does, after how many characters a
  write to a path fails (\<open>None\<close>: it does not fail), what \<open>mimetypes.guess_type\<close>
  answers for a file name, and the bytes \<open>ebooklib\<close> writes for a book.
\<close>

record env =
  http_get :: "string \<Rightarrow> response"
  loads_entries :: "string \<Rightarrow> entry list option"
  loads_data :: "string \<Rightarrow> data_obj option"
  smtp_fails :: "mail \<Rightarrow> bool"
  webpush :: "subscription \<Rightarrow> push_payload \<Rightarrow> push_outcome"
  write_fault :: "path \<Rightarrow> nat option"
  guess_type :: "string \<Rightarrow> string option"
  epub_bytes :: "epub_book \<Rightarrow> string"

text \<open>
  The world is what the program changes: the files, and the logs of the requests made,
  the mails sent and the push deliveries attempted.
\<close>

record world =
  files :: "path \<Rightarrow> node option"
  requests :: "string list"
  outbox :: "mail list"
  pushes :: "(subscription \<times> push_payload) list"

text \<open>\<open>session.get(url)\<close>: the request is made, then it answers or raises.\<close>

definition session_get :: "env \<Rightarrow> world \<Rightarrow> string \<Rightarrow> (exn + nat \<times> string) \<times> world" where
  "session_get e w u =
     (case http_get e u of
        NoResponse \<Rightarrow> (Inl ConnectionError, w\<lparr>requests := requests w @ [u]\<rparr>)
      | Response st txt \<Rightarrow> (Inr (st, txt), w\<lparr>requests := requests w @ [u]\<rparr>))"

text \<open>\<open>resp.raise_for_status()\<close> raises for the status codes 400 to 599.\<close>

definition raise_for_status :: "nat \<Rightarrow> bool" where
  "raise_for_status st = (400 \<le> st \<and> st < 600)"

section \<open>utils.py\<close>

text \<open>
  \<open>re.search(r'entries":\[(.*?)\]', html, re.DOTALL)\<close>: the text between the first
  occurrence of \<open>entries":[\<close> and the first \<open>]\<close> after it.
\<close>

definition search_entries :: "string \<Rightarrow> string option" where
  \<open>search_entries html =
     (case after_first ''entries":['' html of
        None \<Rightarrow> None
      | Some r \<Rightarrow>
          if CHR '']'' \<in> set r then Some (takeWhile (\<lambda>c. c \<noteq> CHR '']'') r) else None)\<close>

definition fetch_mangaliste_entries :: "env \<Rightarrow> world \<Rightarrow> string \<Rightarrow> (exn + entry list) \<times> world" where
  "fetch_mangaliste_entries e w base_url =
     (let u = rstrip_slash base_url @ ''/manga/kapitel-mangaliste''
      in case session_get e w u of
           (Inl x, w') \<Rightarrow> (Inl x, w')
         | (Inr (st, html), w') \<Rightarrow>
             if raise_for_status st then (Inl HTTPError, w')
             else (case search_entries html of
                     None \<Rightarrow> (Inl RuntimeError, w')
                   | Some g \<Rightarrow>
                       (case loads_entries e (''['' @ g @ '']'') of
                          None \<Rightarrow> (Inl JSONDecodeError, w')
                        | Some es \<Rightarrow> (Inr es, w'))))"

text \<open>
  \<open>re.search(r'window\.__data\s*=\s*(\{.*?\})\s*;', vs_html, re.DOTALL)\<close>.  At one
  position the match is forced: the literal, all the whitespace, \<open>=\<close>, all the
  whitespace, \<open>{\<close>, and then the shortest text that ends in a \<open>}\<close> followed by
  whitespace and \<open>;\<close>.  The search takes the first position that matches and returns
  the group, braces included.
\<close>

definition skip_space :: "string \<Rightarrow> string" where
  "skip_space s = dropWhile py_isspace s"

fun lazy_block :: "string \<Rightarrow> string \<Rightarrow> string option" where
  "lazy_block acc [] = None"
| "lazy_block acc (c # cs) =
     (if c = CHR ''}'' \<and> strip_prefix '';'' (skip_space cs) \<noteq> None then Some (acc @ [c])
      else lazy_block (acc @ [c]) cs)"

definition match_data_at :: "string \<Rightarrow> string option" where
  "match_data_at t =
     (case strip_prefix ''window.__data'' t of
        None \<Rightarrow> None
      | Some r1 \<Rightarrow>
          (case strip_prefix ''='' (skip_space r1) of
             None \<Rightarrow> None
           | Some r2 \<Rightarrow>
               (case strip_prefix ''{'' (skip_space r2) of
                  None \<Rightarrow> None
                | Some r3 \<Rightarrow> lazy_block ''{'' r3)))"

fun search_data :: "string \<Rightarrow> string option" where
  "search_data [] = None"
| "search_data (c # cs) =
     (case match_data_at (c # cs) of Some g \<Rightarrow> Some g | None \<Rightarrow> search_data cs)"

definition unavailable_marker :: string where
  "unavailable_marker = ''Dieses Kapitel ist aktuell nicht verf''"

definition chapter_url :: "string \<Rightarrow> int \<Rightarrow> string" where
  "chapter_url base chap = rstrip_slash base @ ''/manga/kapitel/'' @ str_int chap @ ''/1''"

definition view_source_url :: "string \<Rightarrow> int \<Rightarrow> string" where
  "view_source_url base chap = ''view-source:'' @ chapter_url base chap"

text \<open>
  The inner \<open>try\<close> of \<open>fetch_chapter_data\<close>: the view-source variant, or the body already
  fetched when that request raises or answers with an error status.
\<close>

definition fetch_view_source :: "env \<Rightarrow> world \<Rightarrow> string \<Rightarrow> string \<Rightarrow> string \<times> world" where
  "fetch_view_source e w u html =
     (case session_get e w u of
        (Inl x, w') \<Rightarrow> (html, w')
      | (Inr (st, txt), w') \<Rightarrow> if raise_for_status st then (html, w') else (txt, w'))"

definition fetch_chapter_data :: "env \<Rightarrow> world \<Rightarrow> int \<Rightarrow> string \<Rightarrow> (exn + data_obj) \<times> world" where
  "fetch_chapter_data e w chap base =
     (case session_get e w (chapter_url base chap) of
        (Inl x, w1) \<Rightarrow> (Inl x, w1)
      | (Inr (st, html), w1) \<Rightarrow>
          if st = 404 then (Inl ValueError, w1)
          else if contains unavailable_marker html then (Inl ValueError, w1)
          else (let (vs_html, w2) = fetch_view_source e w1 (view_source_url base chap) html
                in case search_data vs_html of
                     None \<Rightarrow> (Inl RuntimeError, w2)
                   | Some g \<Rightarrow>
                       (case loads_data e g of
                          None \<Rightarrow> (Inl JSONDecodeError, w2)
                        | Some d \<Rightarrow> (Inr d, w2))))"


section \<open>web\_push.py\<close>

record push_service =
  subscriptions :: "subscription list"

text \<open>
  The loop of \<open>subscribe\<close> over the stored subscriptions: \<open>existing['endpoint']\<close> raises
  \<open>KeyError\<close> on a stored subscription without that key.
\<close>

fun already_subscribed :: "subscription list \<Rightarrow> string \<Rightarrow> exn + bool" where
  "already_subscribed [] ep = Inr False"
| "already_subscribed (x # xs) ep =
     (case endpoint x of
        None \<Rightarrow> Inl KeyError
      | Some ep' \<Rightarrow> if ep' = ep then Inr True else already_subscribed xs ep)"

definition subscribe :: "push_service \<Rightarrow> subscription \<Rightarrow> bool \<times> push_service" where
  "subscribe s sub =
     (case (endpoint sub, keys sub) of
        (Some ep, Some ks) \<Rightarrow>
          if p256dh ks = None \<or> auth ks = None then (False, s)
          else (case already_subscribed (subscriptions s) ep of
                  Inl x \<Rightarrow> (False, s)
                | Inr True \<Rightarrow> (True, s)
                | Inr False \<Rightarrow> (True, s\<lparr>subscriptions := subscriptions s @ [sub]\<rparr>))
      | _ \<Rightarrow> (False, s))"

definition unsubscribe :: "push_service \<Rightarrow> string \<Rightarrow> (exn + bool) \<times> push_service" where
  "unsubscribe s ep =
     (if list_ex (\<lambda>x. endpoint x = None) (subscriptions s) then (Inl KeyError, s)
      else (let original_count = length (subscriptions s);
                kept = filter (\<lambda>x. endpoint x \<noteq> Some ep) (subscriptions s)
            in (Inr (length kept < original_count), s\<lparr>subscriptions := kept\<rparr>)))"

text \<open>
  The delivery loop of \<open>send_notification\<close>: every subscription gets one \<open>webpush\<close> call;
  the result is the number delivered and the subscriptions to remove, those rejected
  with a truthy response whose status is 404 or 410.
\<close>

fun deliver :: "env \<Rightarrow> push_payload \<Rightarrow> subscription list \<Rightarrow> nat \<times> subscription list" where
  "deliver e pl [] = (0, [])"
| "deliver e pl (x # xs) =
     (let (k, failed) = deliver e pl xs
      in case webpush e x pl of
           Delivered \<Rightarrow> (Suc k, failed)
         | PushRejected (Some (True, st)) \<Rightarrow>
             if st = 404 \<or> st = 410 then (k, x # failed) else (k, failed)
         | _ \<Rightarrow> (k, failed))"

fun remove_failed :: "push_service \<Rightarrow> subscription list \<Rightarrow> (exn + unit) \<times> push_service" where
  "remove_failed s [] = (Inr (), s)"
| "remove_failed s (f # fs) =
     (case endpoint f of
        None \<Rightarrow> (Inl KeyError, s)
      | Some ep \<Rightarrow>
          (case unsubscribe s ep of
             (Inl x, s') \<Rightarrow> (Inl x, s')
           | (Inr r, s') \<Rightarrow> remove_failed s' fs))"

definition send_notification ::
  "env \<Rightarrow> world \<Rightarrow> push_service \<Rightarrow> string \<Rightarrow> string \<Rightarrow> (string \<times> string) list option
     \<Rightarrow> (exn + nat) \<times> push_service \<times> world" where
  "send_notification e w s title message data =
     (if subscriptions s = [] then (Inr 0, s, w)
      else (let pl = \<lparr>p_title = title, p_body = message,
                       p_data = (case data of None \<Rightarrow> [] | Some d \<Rightarrow> d)\<rparr>;
                (successful_sends, failed) = deliver e pl (subscriptions s);
                w' = w\<lparr>pushes := pushes w @ map (\<lambda>x. (x, pl)) (subscriptions s)\<rparr>
            in case remove_failed s failed of
                 (Inl x, s') \<Rightarrow> (Inl x, s', w')
               | (Inr u, s') \<Rightarrow> (Inr successful_sends, s', w')))"

section \<open>notification.py\<close>

record notifier =
  base_url :: string
  smtp_config :: "string \<Rightarrow> string option"
  entries :: "entry list"

definition refresh :: "env \<Rightarrow> world \<Rightarrow> notifier \<Rightarrow> notifier \<times> world" where
  "refresh e w n =
     (case fetch_mangaliste_entries e w (base_url n) of
        (Inr es, w') \<Rightarrow> (n\<lparr>entries := es\<rparr>, w')
      | (Inl x, w') \<Rightarrow> (n, w'))"

text \<open>\<open>entry.get("number", 0)\<close>\<close>

definition get_number_or_0 :: "entry \<Rightarrow> int" where
  "get_number_or_0 en = (case number en of None \<Rightarrow> 0 | Some k \<Rightarrow> k)"


text \<open>
  \<open>sorted(new_entries, key=lambda x: x["number"])\<close>: the key is computed for every
  element first, and \<open>x["number"]\<close> raises \<open>KeyError\<close> where the key is absent; the
  sort is stable.
\<close>

definition sorted_by_number :: "entry list \<Rightarrow> exn + entry list" where
  "sorted_by_number es =
     (if list_ex (\<lambda>en. number en = None) es then Inl KeyError
      else Inr (sort_key get_number_or_0 es))"

definition check_for_update :: "env \<Rightarrow> world \<Rightarrow> notifier \<Rightarrow> int \<Rightarrow> (exn + entry list) \<times> notifier \<times> world" where
  "check_for_update e w n current_latest =
     (let (n', w') = refresh e w n;
          new_entries = filter (\<lambda>en. get_number_or_0 en > current_latest) (entries n')
      in (sorted_by_number new_entries, n', w'))"














section \<open>The file system and paths\<close>

text \<open>
  \<open>p / seg\<close> for a segment without a slash: \<open>pathlib\<close> drops an empty segment and
  \<open>.\<close>, and keeps \<open>..\<close>.  \<open>p.name\<close> is the last component and \<open>p.parent\<close> drops it.
\<close>

definition path_join :: "path \<Rightarrow> string \<Rightarrow> path" where
  "path_join p seg = (if seg = [] \<or> seg = ''.'' then p else p @ [seg])"

definition path_name :: "path \<Rightarrow> string" where
  "path_name p = (case rev p of [] \<Rightarrow> [] | c # cs \<Rightarrow> c)"

definition path_parent :: "path \<Rightarrow> path" where
  "path_parent p = butlast p"

text \<open>
  The file system follows \<open>..\<close> to the parent when it looks a path up; the files are
  kept under resolved paths, and the empty path is the directory everything is relative
  to.  Symbolic links are not modelled.
\<close>

definition resolve :: "path \<Rightarrow> path" where
  "resolve p = foldl (\<lambda>acc c. if c = ''..'' then butlast acc else acc @ [c]) [] p"

definition node_at :: "world \<Rightarrow> path \<Rightarrow> node option" where
  "node_at w p = (let q = resolve p in if q = [] then Some Dir else files w q)"

definition path_exists :: "world \<Rightarrow> path \<Rightarrow> bool" where
  "path_exists w p = (node_at w p \<noteq> None)"

text \<open>
  \<open>p.mkdir(parents=True, exist_ok=True)\<close>, which is also \<open>ensure_dir\<close> of \<open>utils.py\<close>: it
  raises when the path or one of its ancestors is a file, and otherwise leaves the path
  and all its ancestors directories.
\<close>

definition ancestors :: "path \<Rightarrow> path list" where
  "ancestors q = map (\<lambda>k. take k q) [1..<Suc (length q)]"

definition is_file :: "node option \<Rightarrow> bool" where
  "is_file v = (case v of None \<Rightarrow> False | Some Dir \<Rightarrow> False | Some _ \<Rightarrow> True)"

definition mkdir_parents :: "world \<Rightarrow> path \<Rightarrow> exn + world" where
  "mkdir_parents w p =
     (let q = resolve p
      in if list_ex (\<lambda>a. is_file (files w a)) (ancestors q) then Inl OSError
         else Inr (w\<lparr>files := fold (\<lambda>a f. f(a \<mapsto> Dir)) (ancestors q) (files w)\<rparr>))"

definition ensure_dir :: "world \<Rightarrow> path \<Rightarrow> exn + world" where
  "ensure_dir w p = mkdir_parents w p"

text \<open>
  \<open>open(p, "wb")\<close> needs the parent directory and refuses a directory; it leaves an empty
  file at \<open>p\<close>, which \<open>f.write(content)\<close> fills.  A write that fails leaves the characters
  written so far.
\<close>

definition open_for_write_ok :: "world \<Rightarrow> path \<Rightarrow> bool" where
  "open_for_write_ok w p = (node_at w (path_parent p) = Some Dir \<and> node_at w p \<noteq> Some Dir)"

definition put_node :: "world \<Rightarrow> path \<Rightarrow> node \<Rightarrow> world" where
  "put_node w p v = w\<lparr>files := (files w)(resolve p \<mapsto> v)\<rparr>"

definition write_file :: "env \<Rightarrow> world \<Rightarrow> path \<Rightarrow> string \<Rightarrow> (exn + unit) \<times> world" where
  "write_file e w p content =
     (if \<not> open_for_write_ok w p then (Inl OSError, w)
      else (case write_fault e (resolve p) of
              None \<Rightarrow> (Inr (), put_node w p (File content))
            | Some k \<Rightarrow>
                if k < length content then (Inl OSError, put_node w p (File (take k content)))
                else (Inr (), put_node w p (File content))))"

text \<open>\<open>epub.write_epub(str(output_path), book)\<close> writes the archive in place.\<close>

definition write_epub :: "env \<Rightarrow> world \<Rightarrow> path \<Rightarrow> epub_book \<Rightarrow> (exn + unit) \<times> world" where
  "write_epub e w p book =
     (if \<not> open_for_write_ok w p then (Inl OSError, w)
      else (case write_fault e (resolve p) of
              None \<Rightarrow> (Inr (), put_node w p (Package book))
            | Some k \<Rightarrow>
                if k < length (epub_bytes e book)
                then (Inl OSError, put_node w p (File (take k (epub_bytes e book))))
                else (Inr (), put_node w p (Package book))))"

text \<open>\<open>open(p, "rb").read()\<close>\<close>

definition read_file :: "env \<Rightarrow> world \<Rightarrow> path \<Rightarrow> exn + string" where
  "read_file e w p =
     (case node_at w p of
        Some (File c) \<Rightarrow> Inr c
      | Some (Package b) \<Rightarrow> Inr (epub_bytes e b)
      | _ \<Rightarrow> Inl OSError)"

section \<open>downloader.py\<close>

record downloader =
  storage_dir :: path
  dl_base_url :: string

definition download_image :: "env \<Rightarrow> world \<Rightarrow> string \<Rightarrow> path \<Rightarrow> (exn + unit) \<times> world" where
  "download_image e w u dest_path =
     (if path_exists w dest_path then (Inr (), w)
      else (case session_get e w u of
              (Inl x, w1) \<Rightarrow> (Inl x, w1)
            | (Inr (st, content), w1) \<Rightarrow>
                if raise_for_status st then (Inl HTTPError, w1)
                else (case mkdir_parents w1 (path_parent dest_path) of
                        Inl x \<Rightarrow> (Inl x, w1)
                      | Inr w2 \<Rightarrow> write_file e w2 dest_path content)))"

text \<open>\<open>f"{idx:03d}"\<close>\<close>

definition pad3 :: "nat \<Rightarrow> string" where
  "pad3 k = replicate (3 - length (str_nat k)) (CHR ''0'') @ str_nat k"

text \<open>
  The loop of \<open>_create_epub\<close> reads every image and makes one page for it; the first read
  that fails ends it, before anything is written.  Pages are numbered from 1.
\<close>

fun read_images :: "env \<Rightarrow> world \<Rightarrow> path list \<Rightarrow> exn + (string \<times> string \<times> string) list" where
  "read_images e w [] = Inr []"
| "read_images e w (p # ps) =
     (case read_file e w p of
        Inl x \<Rightarrow> Inl x
      | Inr c \<Rightarrow>
          (case read_images e w ps of
             Inl x \<Rightarrow> Inl x
           | Inr imgs \<Rightarrow>
               Inr ((''images/'' @ path_name p,
                     (case guess_type e (path_name p) of None \<Rightarrow> ''image/jpeg'' | Some m \<Rightarrow> m),
                     c) # imgs)))"

fun make_pages :: "nat \<Rightarrow> path list \<Rightarrow> epub_page list" where
  "make_pages idx [] = []"
| "make_pages idx (p # ps) =
     \<lparr>page_file_name = ''page_'' @ pad3 idx @ ''.xhtml'',
      page_title = ''Seite '' @ str_nat idx,
      page_img_src = ''images/'' @ path_name p\<rparr> # make_pages (Suc idx) ps"

fun make_toc :: "nat \<Rightarrow> path list \<Rightarrow> (string \<times> string \<times> string) list" where
  "make_toc idx [] = []"
| "make_toc idx (p # ps) =
     (''page_'' @ pad3 idx @ ''.xhtml'', ''Seite '' @ str_nat idx, ''page'' @ str_nat idx)
       # make_toc (Suc idx) ps"

definition make_book ::
  "int \<Rightarrow> string \<Rightarrow> (string \<times> string \<times> string) list \<Rightarrow> path list \<Rightarrow> epub_book" where
  "make_book chap title imgs image_files =
     \<lparr>book_chapter = chap, book_chapter_title = title,
      book_language = ''de'', book_author = ''Eiichiro Oda'',
      book_images = imgs,
      book_spine = make_pages 1 image_files,
      book_toc = make_toc 1 image_files\<rparr>"

definition create_epub ::
  "env \<Rightarrow> world \<Rightarrow> int \<Rightarrow> string \<Rightarrow> path list \<Rightarrow> path \<Rightarrow> (exn + unit) \<times> world" where
  "create_epub e w chap title image_files output_path =
     (case read_images e w image_files of
        Inl x \<Rightarrow> (Inl x, w)
      | Inr imgs \<Rightarrow>
          (case mkdir_parents w (path_parent output_path) of
             Inl x \<Rightarrow> (Inl x, w)
           | Inr w1 \<Rightarrow>
               write_epub e w1 output_path (make_book chap title imgs image_files)))"

text \<open>\<open>url.split("/")[-1]\<close>: the text after the last slash.\<close>

definition last_segment :: "string \<Rightarrow> string" where
  "last_segment u = rev (takeWhile (\<lambda>c. c \<noteq> CHR ''/'') (rev u))"

text \<open>
  The download loop of \<open>download_chapter\<close>: a page without a URL (absent or empty) is
  skipped, and the first download that raises ends the loop.
\<close>

fun download_pages :: "env \<Rightarrow> world \<Rightarrow> path \<Rightarrow> page list \<Rightarrow> (exn + path list) \<times> world" where
  "download_pages e w images_dir [] = (Inr [], w)"
| "download_pages e w images_dir (pg # pgs) =
     (case url pg of
        None \<Rightarrow> download_pages e w images_dir pgs
      | Some u \<Rightarrow>
          if u = [] then download_pages e w images_dir pgs
          else (let dest_path = path_join images_dir (last_segment u)
                in case download_image e w u dest_path of
                     (Inl x, w1) \<Rightarrow> (Inl x, w1)
                   | (Inr r, w1) \<Rightarrow>
                       (case download_pages e w1 images_dir pgs of
                          (Inl x, w2) \<Rightarrow> (Inl x, w2)
                        | (Inr ps, w2) \<Rightarrow> (Inr (dest_path # ps), w2))))"

definition chapter_dir :: "downloader \<Rightarrow> int \<Rightarrow> path" where
  "chapter_dir d chap = path_join (storage_dir d) (str_int chap)"

definition images_dir :: "downloader \<Rightarrow> int \<Rightarrow> path" where
  "images_dir d chap = path_join (chapter_dir d chap) ''images''"

definition epub_path :: "downloader \<Rightarrow> int \<Rightarrow> path" where
  "epub_path d chap = path_join (chapter_dir d chap) (''onepiece_'' @ str_int chap @ ''.epub'')"

text \<open>
  What \<open>download_chapter\<close> does once the metadata is there: directories, downloads, the
  sort by file name, the book.
\<close>

definition store_chapter ::
  "env \<Rightarrow> world \<Rightarrow> downloader \<Rightarrow> int \<Rightarrow> string \<Rightarrow> page list \<Rightarrow> (exn + path) \<times> world" where
  "store_chapter e w d chap title pgs =
     (case ensure_dir w (images_dir d chap) of
        Inl x \<Rightarrow> (Inl x, w)
      | Inr w2 \<Rightarrow>
          (case download_pages e w2 (images_dir d chap) pgs of
             (Inl x, w3) \<Rightarrow> (Inl x, w3)
           | (Inr image_paths, w3) \<Rightarrow>
               (case create_epub e w3 chap title (sort_key path_name image_paths)
                       (epub_path d chap) of
                  (Inl x, w4) \<Rightarrow> (Inl x, w4)
                | (Inr r, w4) \<Rightarrow> (Inr (epub_path d chap), w4))))"

definition download_chapter :: "env \<Rightarrow> world \<Rightarrow> downloader \<Rightarrow> int \<Rightarrow> (exn + path) \<times> world" where
  "download_chapter e w d chap =
     (case fetch_chapter_data e w chap (dl_base_url d) of
        (Inl x, w1) \<Rightarrow> (Inl x, w1)
      | (Inr dat, w1) \<Rightarrow>
          (case d_chapter dat of
             None \<Rightarrow> (Inl KeyError, w1)
           | Some ci \<Rightarrow>
               (case ch_name ci of
                  None \<Rightarrow> (Inl KeyError, w1)
                | Some title \<Rightarrow>
                    (case ch_pages ci of
                       None \<Rightarrow> (Inl KeyError, w1)
                     | Some pgs \<Rightarrow> store_chapter e w1 d chap title pgs))))"

section \<open>scheduler.py\<close>




section \<open>app.py\<close>

text \<open>
  \<open>download_endpoint\<close> maps the outcome of \<open>download_chapter\<close> to a status code: 201 when
  it returns, 404 in the handler \<open>except ValueError\<close>, 500 in the handler that follows.
\<close>

definition download_endpoint :: "env \<Rightarrow> world \<Rightarrow> downloader \<Rightarrow> int \<Rightarrow> nat \<times> world" where
  "download_endpoint e w d chap =
     (case download_chapter e w d chap of
        (Inr p, w') \<Rightarrow> (201, w')
      | (Inl x, w') \<Rightarrow> if is_ValueError x then (404, w') else (500, w'))"

section \<open>The states of the push service\<close>

text \<open>
  A subscription is well formed when it has the keys \<open>endpoint\<close> and \<open>keys\<close> and the
  latter has \<open>p256dh\<close> and \<open>auth\<close>.  The service starts with no subscription
  (\<open>__init__\<close>) and its list changes through \<open>subscribe\<close>, \<open>unsubscribe\<close> and
  \<open>send_notification\<close> only; \<open>reachable\<close> holds of the states it can get into.
  In the invariant every stored subscription has an endpoint and no endpoint is stored
  twice.
\<close>

definition well_formed :: "subscription \<Rightarrow> bool" where
  "well_formed sub =
     (case (endpoint sub, keys sub) of
        (Some ep, Some ks) \<Rightarrow> p256dh ks \<noteq> None \<and> auth ks \<noteq> None
      | _ \<Rightarrow> False)"

definition endpoints_unique :: "push_service \<Rightarrow> bool" where
  "endpoints_unique s =
     (list_all (\<lambda>x. endpoint x \<noteq> None) (subscriptions s) \<and>
      distinct (map endpoint (subscriptions s)))"

inductive reachable :: "push_service \<Rightarrow> bool" where
  start: "reachable \<lparr>subscriptions = []\<rparr>"
| after_subscribe: "reachable s \<Longrightarrow> reachable (snd (subscribe s sub))"
| after_unsubscribe: "reachable s \<Longrightarrow> reachable (snd (unsubscribe s ep))"
| after_send: "reachable s \<Longrightarrow> reachable (fst (snd (send_notification e w s title message data)))"

section \<open>Worlds that only grow\<close>


section \<open>Saved file names and page order\<close>



section \<open>Concrete runs\<close>

text \<open>
  The values the worked examples below are run on: an environment in which every request
  fails and nothing else does, the empty world, and a notifier whose cached snapshot has
  the chapters 10, 12 and 11.
\<close>

definition no_env :: env where
  "no_env = \<lparr>http_get = (\<lambda>u. NoResponse), loads_entries = (\<lambda>t. None), loads_data = (\<lambda>t. None),
     smtp_fails = (\<lambda>m. False), webpush = (\<lambda>x pl. Delivered), write_fault = (\<lambda>p. None),
     guess_type = (\<lambda>nm. None), epub_bytes = (\<lambda>b. [])\<rparr>"

definition empty_world :: world where
  "empty_world = \<lparr>files = (\<lambda>p. None), requests = [], outbox = [], pushes = []\<rparr>"

definition numbered :: "int \<Rightarrow> entry" where
  "numbered k = \<lparr>number = Some k, name = None, extra = []\<rparr>"

definition site :: string where
  "site = ''https://onepiece.tube''"

definition listing_url :: string where
  "listing_url = ''https://onepiece.tube/manga/kapitel-mangaliste''"

definition cached :: notifier where
  "cached = \<lparr>base_url = site, smtp_config = (\<lambda>k. None), entries = [numbered 10, numbered 12, numbered 11]\<rparr>"

text \<open>
  A listing whose only entry has no \<open>number\<close>, and a notifier that has not loaded a
  snapshot yet.
\<close>

definition listing_page :: string where
  \<open>listing_page = ''<script>window.__data={"entries":[{"name":"Prolog"}],"arcs":[]};</script>''\<close>

definition unnumbered :: entry where
  "unnumbered = \<lparr>number = None, name = Some ''Prolog'', extra = []\<rparr>"

definition listing_env :: env where
  \<open>listing_env = no_env
     \<lparr>http_get := (\<lambda>u. if u = listing_url then Response 200 listing_page else NoResponse),
      loads_entries := (\<lambda>t. if t = ''[{"name":"Prolog"}]'' then Some [unnumbered] else None)\<rparr>\<close>

definition fresh :: notifier where
  "fresh = \<lparr>base_url = site, smtp_config = (\<lambda>k. None), entries = []\<rparr>"

text \<open>
  Two subscribers, \<open>a\<close> and \<open>b\<close>, a second subscription for the endpoint of \<open>a\<close>, a
  mail server that refuses every message, and a notifier with a complete configuration.
\<close>

definition sub_a :: subscription where
  "sub_a = \<lparr>endpoint = Some ''https://push.example/a'',
            keys = Some \<lparr>p256dh = Some ''BK'', auth = Some ''s1''\<rparr>\<rparr>"

definition sub_a2 :: subscription where
  "sub_a2 = \<lparr>endpoint = Some ''https://push.example/a'',
            keys = Some \<lparr>p256dh = Some ''BX'', auth = Some ''s2''\<rparr>\<rparr>"

definition sub_b :: subscription where
  "sub_b = \<lparr>endpoint = Some ''https://push.example/b'',
            keys = Some \<lparr>p256dh = Some ''BL'', auth = Some ''s3''\<rparr>\<rparr>"

definition two_subscribers :: push_service where
  "two_subscribers = snd (subscribe (snd (subscribe \<lparr>subscriptions = []\<rparr> sub_a)) sub_b)"



text \<open>
  The page of chapter 1156 with an embedded block that is not JSON, and a downloader
  that stores under \<open>data\<close>.
\<close>

definition chapter_page_url :: string where
  "chapter_page_url = ''https://onepiece.tube/manga/kapitel/1156/1''"

definition broken_page :: string where
  \<open>broken_page = ''<script>window.__data = {"chapter":};</script>''\<close>

definition broken_env :: env where
  "broken_env = no_env
     \<lparr>http_get := (\<lambda>u. if u = chapter_page_url then Response 200 broken_page else NoResponse)\<rparr>"

definition library :: downloader where
  "library = \<lparr>storage_dir = [''data''], dl_base_url = site\<rparr>"










section \<open>Properties of the notifier\<close>

text \<open>
  C7: \<open>refresh\<close> is fail-soft.  Whenever fetching the listing raises, whatever the
  exception, the notifier is left as it was; in particular its cached \<open>entries\<close> are
  neither cleared nor replaced.
\<close>

theorem refresh_fail_soft:
  "fst (fetch_mangaliste_entries e w (base_url n)) = Inl x \<Longrightarrow>
   fst (refresh e w n) = n \<and> entries (fst (refresh e w n)) = entries n"
  by (auto simp: refresh_def split: prod.splits sum.splits)

theorem refresh_fail_soft_witness:
  "fst (fetch_mangaliste_entries no_env empty_world (base_url cached)) = Inl ConnectionError \<and>
   entries (fst (refresh no_env empty_world cached)) = [numbered 10, numbered 12, numbered 11]"
proof -
  have h: "fst (fetch_mangaliste_entries no_env empty_world (base_url cached)) = Inl ConnectionError"
    by (simp add: fetch_mangaliste_entries_def session_get_def no_env_def cached_def Let_def)
  from refresh_fail_soft [OF h] show ?thesis using h by (simp add: cached_def)
qed

text \<open>
  The update check on a snapshot in which every entry has a number: the entries above
  the watermark, in ascending order of number.  The example of the specification
  (snapshot 10, 12, 11 and watermark 10) gives 11 and then 12.
\<close>

lemma sorted_by_number_ok:
  "list_all (\<lambda>en. number en \<noteq> None) es \<Longrightarrow> sorted_by_number es = Inr (sort_key get_number_or_0 es)"
  by (auto simp: sorted_by_number_def list_ex_iff list_all_iff)

lemma check_for_update_numbered:
  assumes "list_all (\<lambda>en. number en \<noteq> None) (entries (fst (refresh e w n)))"
  shows "fst (check_for_update e w n cl) =
           Inr (sort_key get_number_or_0 (filter (\<lambda>en. cl < get_number_or_0 en) (entries (fst (refresh e w n)))))"
  using assms
  by (auto simp: check_for_update_def Let_def split: prod.splits intro!: sorted_by_number_ok simp: list_all_iff)

lemma check_for_update_example:
  "fst (check_for_update no_env empty_world cached 10) = Inr [numbered 11, numbered 12]"
  by (simp add: check_for_update_def refresh_def fetch_mangaliste_entries_def session_get_def no_env_def
      cached_def Let_def sorted_by_number_def numbered_def get_number_or_0_def)

lemma listing_fetch:
  "fst (fetch_mangaliste_entries listing_env empty_world site) = Inr [unnumbered]"
  by (simp add: fetch_mangaliste_entries_def session_get_def listing_env_def no_env_def site_def
      listing_url_def listing_page_def rstrip_slash_def raise_for_status_def search_entries_def Let_def)

lemma listing_refresh: "entries (fst (refresh listing_env empty_world fresh)) = [unnumbered]"
  using listing_fetch
  by (cases "fetch_mangaliste_entries listing_env empty_world site") (simp add: refresh_def fresh_def)

text \<open>
  C5: \<open>check_for_update\<close> is to return the entries whose number exceeds the watermark, and
  the empty list when there are none.  The filter reads the number with
  \<open>e.get("number", 0)\<close>, the sort key with \<open>x["number"]\<close>: on a listing whose entry has
  no number and a watermark of \<open>-1\<close> the entry passes the filter and the sort raises
  \<open>KeyError\<close>.
\<close>

theorem check_for_update_key_error:
  "fst (check_for_update listing_env empty_world fresh (- 1)) = Inl KeyError"
  using listing_refresh
  by (simp add: check_for_update_def Let_def split_beta sorted_by_number_def
      unnumbered_def get_number_or_0_def)

section \<open>Properties of the scheduler\<close>

text \<open>\<open>max\<close> of a non-empty list is an element and an upper bound.\<close>

lemma fold_max_ge: "(a::int) \<le> fold max xs a"
proof (induction xs arbitrary: a)
  case Nil then show ?case by simp
next
  case (Cons y ys)
  have "a \<le> max y a" by simp
  also have "\<dots> \<le> fold max ys (max y a)" by (rule Cons.IH)
  finally show ?case by simp
qed

lemma fold_max_mem: "fold max xs (a::int) \<in> insert a (set xs)"
  by (induction xs arbitrary: a) (auto simp: max_def)

lemma fold_max_upper: "x \<in> set xs \<Longrightarrow> (x::int) \<le> fold max xs a"
proof (induction xs arbitrary: a)
  case Nil then show ?case by simp
next
  case (Cons y ys)
  show ?case
  proof (cases "x = y")
    case True
    have "y \<le> max y a" by simp
    also have "\<dots> \<le> fold max ys (max y a)" by (rule fold_max_ge)
    finally show ?thesis using True by simp
  next
    case False
    with Cons show ?thesis by simp
  qed
qed

lemma py_max_Some:
  "py_max xs = Some m \<Longrightarrow> m \<in> set xs \<and> (\<forall>x \<in> set xs. x \<le> m)"
proof (cases xs)
  case Nil then show "py_max xs = Some m \<Longrightarrow> ?thesis" by simp
next
  case (Cons a as)
  assume "py_max xs = Some m"
  with Cons have m: "m = fold max as a" by simp
  have "m \<in> set xs" using fold_max_mem [of as a] m Cons by auto
  moreover have "\<forall>x \<in> set xs. x \<le> m"
    using fold_max_upper [of _ as a] fold_max_ge [of a as] m Cons by auto
  ultimately show ?thesis by simp
qed

lemma py_max_None: "py_max xs = None \<longleftrightarrow> xs = []"
  by (cases xs) auto








section \<open>Properties of the e-mail channel\<close>





section \<open>Properties of the push service\<close>

lemma already_subscribed_all:
  "list_all (\<lambda>x. endpoint x \<noteq> None) xs \<Longrightarrow>
   already_subscribed xs ep = Inr (Some ep \<in> set (map endpoint xs))"
  by (induction xs) auto

lemma subscribe_invalid: "\<not> well_formed sub \<Longrightarrow> subscribe s sub = (False, s)"
  by (auto simp: subscribe_def well_formed_def split: option.splits)

lemma subscribe_valid:
  assumes "endpoints_unique s" and "well_formed sub"
  shows "subscribe s sub =
           (True, if endpoint sub \<in> set (map endpoint (subscriptions s)) then s
                  else s\<lparr>subscriptions := subscriptions s @ [sub]\<rparr>)"
proof -
  from assms(2) obtain ep ks where sub: "endpoint sub = Some ep" "keys sub = Some ks"
    "p256dh ks \<noteq> None" "auth ks \<noteq> None"
    by (auto simp: well_formed_def split: option.splits)
  from assms(1) have "already_subscribed (subscriptions s) ep = Inr (Some ep \<in> set (map endpoint (subscriptions s)))"
    by (simp add: endpoints_unique_def already_subscribed_all)
  with sub show ?thesis by (simp add: subscribe_def)
qed

lemma subscribe_preserves: "endpoints_unique s \<Longrightarrow> endpoints_unique (snd (subscribe s sub))"
proof (cases "well_formed sub")
  case False
  assume "endpoints_unique s"
  with False show ?thesis by (simp add: subscribe_invalid)
next
  case True
  assume inv: "endpoints_unique s"
  from True have "endpoint sub \<noteq> None" by (auto simp: well_formed_def split: option.splits)
  with inv show ?thesis
    by (auto simp: subscribe_valid [OF inv True] endpoints_unique_def)
qed

lemma filter_shorter: "length (filter P xs) < length xs \<longleftrightarrow> (\<exists>x \<in> set xs. \<not> P x)"
proof (induction xs)
  case Nil show ?case by simp
next
  case (Cons a xs)
  have "length (filter P xs) \<le> length xs" by simp
  with Cons show ?case by auto
qed

lemma unsubscribe_all:
  "list_all (\<lambda>x. endpoint x \<noteq> None) (subscriptions s) \<Longrightarrow>
   unsubscribe s ep =
     (Inr (Some ep \<in> set (map endpoint (subscriptions s))),
      s\<lparr>subscriptions := filter (\<lambda>x. endpoint x \<noteq> Some ep) (subscriptions s)\<rparr>)"
proof -
  assume a: "list_all (\<lambda>x. endpoint x \<noteq> None) (subscriptions s)"
  then have "\<not> list_ex (\<lambda>x. endpoint x = None) (subscriptions s)"
    by (auto simp: list_all_iff list_ex_iff)
  moreover have "(length (filter (\<lambda>x. endpoint x \<noteq> Some ep) (subscriptions s)) < length (subscriptions s))
      = (Some ep \<in> set (map endpoint (subscriptions s)))"
    by (force simp: filter_shorter image_iff)
  ultimately show ?thesis by (simp add: unsubscribe_def Let_def)
qed

lemma unsubscribe_preserves: "endpoints_unique s \<Longrightarrow> endpoints_unique (snd (unsubscribe s ep))"
  by (auto simp: unsubscribe_def Let_def endpoints_unique_def list_all_iff distinct_map_filter)

lemma remove_failed_preserves:
  "endpoints_unique s \<Longrightarrow> endpoints_unique (snd (remove_failed s fs))"
proof (induction fs arbitrary: s)
  case Nil then show ?case by simp
next
  case (Cons f fs)
  show ?case
  proof (cases "endpoint f")
    case None with Cons.prems show ?thesis by simp
  next
    case (Some ep)
    from Cons.prems have u: "endpoints_unique (snd (unsubscribe s ep))" by (rule unsubscribe_preserves)
    show ?thesis
    proof (cases "unsubscribe s ep")
      case (Pair r s')
      with u have "endpoints_unique s'" by simp
      then show ?thesis using Pair Some Cons.IH [of s'] by (cases r) simp_all
    qed
  qed
qed

lemma send_notification_preserves:
  "endpoints_unique s \<Longrightarrow> endpoints_unique (fst (snd (send_notification e w s t m d)))"
proof -
  assume inv: "endpoints_unique s"
  show ?thesis
  proof (cases "subscriptions s = []")
    case True with inv show ?thesis by (simp add: send_notification_def)
  next
    case False
    obtain k failed where d: "deliver e \<lparr>p_title = t, p_body = m, p_data = (case d of None \<Rightarrow> [] | Some x \<Rightarrow> x)\<rparr> (subscriptions s) = (k, failed)"
      by (cases "deliver e \<lparr>p_title = t, p_body = m, p_data = (case d of None \<Rightarrow> [] | Some x \<Rightarrow> x)\<rparr> (subscriptions s)")
    obtain r s' where rf: "remove_failed s failed = (r, s')" by (cases "remove_failed s failed")
    from remove_failed_preserves [OF inv, of failed] rf have "endpoints_unique s'" by simp
    with False d rf show ?thesis by (cases r) (simp_all add: send_notification_def Let_def)
  qed
qed

lemma reachable_unique: "reachable s \<Longrightarrow> endpoints_unique s"
proof (induction rule: reachable.induct)
  case start show ?case by (simp add: endpoints_unique_def)
next
  case (after_subscribe s sub) then show ?case by (simp add: subscribe_preserves)
next
  case (after_unsubscribe s ep) then show ?case by (simp add: unsubscribe_preserves)
next
  case (after_send s e w title message data) then show ?case by (simp add: send_notification_preserves)
qed

text \<open>
  C10: in every state the push service can reach, no two stored subscriptions have the
  same endpoint (and every stored subscription has one).  There \<open>subscribe\<close> returns
  \<open>False\<close> and stores nothing for a subscription that is not well formed, returns
  \<open>True\<close> without appending when the endpoint is already stored, and appends otherwise;
  \<open>unsubscribe\<close> keeps exactly the subscriptions with another endpoint and returns
  \<open>True\<close> exactly when the endpoint was stored.
\<close>

theorem subscriptions_unique:
  assumes "reachable s"
  shows "distinct (map endpoint (subscriptions s)) \<and>
         list_all (\<lambda>x. endpoint x \<noteq> None) (subscriptions s) \<and>
         (if \<not> well_formed sub then subscribe s sub = (False, s)
          else if endpoint sub \<in> set (map endpoint (subscriptions s)) then subscribe s sub = (True, s)
          else subscribe s sub = (True, s\<lparr>subscriptions := subscriptions s @ [sub]\<rparr>)) \<and>
         unsubscribe s ep =
           (Inr (Some ep \<in> set (map endpoint (subscriptions s))),
            s\<lparr>subscriptions := filter (\<lambda>x. endpoint x \<noteq> Some ep) (subscriptions s)\<rparr>)"
proof -
  from assms have inv: "endpoints_unique s" by (rule reachable_unique)
  then have "distinct (map endpoint (subscriptions s))"
    and all: "list_all (\<lambda>x. endpoint x \<noteq> None) (subscriptions s)"
    by (simp_all add: endpoints_unique_def)
  moreover have "if \<not> well_formed sub then subscribe s sub = (False, s)
          else if endpoint sub \<in> set (map endpoint (subscriptions s)) then subscribe s sub = (True, s)
          else subscribe s sub = (True, s\<lparr>subscriptions := subscriptions s @ [sub]\<rparr>)"
    using subscribe_invalid [of sub s] subscribe_valid [OF inv, of sub] by auto
  moreover note unsubscribe_all [OF all, of ep]
  ultimately show ?thesis by simp
qed

lemma two_subscribers_eq: "two_subscribers = \<lparr>subscriptions = [sub_a, sub_b]\<rparr>"
  by (simp add: two_subscribers_def subscribe_def sub_a_def sub_b_def)

theorem subscriptions_unique_witness:
  "subscriptions two_subscribers = [sub_a, sub_b] \<and>
   subscribe two_subscribers sub_a2 = (True, two_subscribers) \<and>
   unsubscribe two_subscribers ''https://push.example/a'' = (Inr True, \<lparr>subscriptions = [sub_b]\<rparr>)"
proof -
  have r: "reachable two_subscribers"
    unfolding two_subscribers_def by (intro reachable.intros)
  have wf: "well_formed sub_a2" by (simp add: well_formed_def sub_a2_def)
  have mem: "endpoint sub_a2 \<in> set (map endpoint (subscriptions two_subscribers))"
    by (simp add: two_subscribers_eq sub_a_def sub_a2_def)
  from subscriptions_unique [OF r, of sub_a2 "''https://push.example/a''"] wf mem
  show ?thesis by (simp add: two_subscribers_eq sub_a_def sub_b_def)
qed

section \<open>Properties of the combined dispatch\<close>
















section \<open>Properties of the chapter metadata\<close>

lemma str_1156: "str_int 1156 = ''1156''"
  by (simp add: str_int_def str_nat.simps digit_char_def)

lemma chapter_url_1156: "chapter_url site 1156 = chapter_page_url"
  by (simp add: chapter_url_def str_1156 site_def rstrip_slash_def chapter_page_url_def)

lemma search_broken: \<open>search_data broken_page = Some ''{"chapter":}''\<close>
  by (simp add: broken_page_def match_data_at_def skip_space_def py_isspace_def)

lemma marker_broken: "\<not> contains unavailable_marker broken_page"
  by (simp add: contains_def unavailable_marker_def broken_page_def)

text \<open>
  A response with status 404, or a body with the unavailability marker, raises
  \<open>ValueError\<close> after the one request for the page: the view-source variant is not
  requested and nothing is extracted.  A body in which the search finds no block raises
  \<open>RuntimeError\<close>.  The exception \<open>ValueError\<close> itself is raised in the first two cases
  only.
\<close>

lemma not_found_first:
  assumes "http_get e (chapter_url base chap) = Response st html"
    and "st = 404 \<or> contains unavailable_marker html"
  shows "fetch_chapter_data e w chap base =
           (Inl ValueError, w\<lparr>requests := requests w @ [chapter_url base chap]\<rparr>)"
  using assms by (auto simp: fetch_chapter_data_def session_get_def)

lemma missing_block_is_runtime_error:
  assumes "http_get e (chapter_url base chap) = Response st html"
    and "st \<noteq> 404" and "\<not> contains unavailable_marker html"
    and "search_data (fst (fetch_view_source e (w\<lparr>requests := requests w @ [chapter_url base chap]\<rparr>)
            (view_source_url base chap) html)) = None"
  shows "fst (fetch_chapter_data e w chap base) = Inl RuntimeError"
  using assms by (simp add: fetch_chapter_data_def session_get_def split_beta)

lemma value_error_iff:
  "fst (fetch_chapter_data e w chap base) = Inl ValueError \<longleftrightarrow>
     (\<exists>st html. http_get e (chapter_url base chap) = Response st html \<and>
        (st = 404 \<or> contains unavailable_marker html))"
  by (auto simp: fetch_chapter_data_def session_get_def split_beta
      split: response.splits option.splits)

text \<open>
  C6: the failures of \<open>fetch_chapter_data\<close> are to be classified distinctly, an
  unavailable chapter as \<open>ValueError\<close> and a page without usable data as
  \<open>RuntimeError\<close>, as its docstring says (\<open>RuntimeError\<close>: the JSON cannot be located or
  parsed).  A page that answers 200 and embeds a block that is not JSON makes
  \<open>json.loads\<close> raise \<open>JSONDecodeError\<close>, which is a \<open>ValueError\<close>: the download
  endpoint answers 404, as for a chapter that is not available.
\<close>

theorem malformed_block_reported_not_found:
  "fst (fetch_chapter_data broken_env empty_world 1156 site) = Inl JSONDecodeError \<and>
   is_ValueError JSONDecodeError \<and>
   fst (download_endpoint broken_env empty_world library 1156) = 404"
proof -
  have f: "fst (fetch_chapter_data broken_env empty_world 1156 site) = Inl JSONDecodeError"
    using search_broken marker_broken
    by (simp add: fetch_chapter_data_def chapter_url_1156 session_get_def broken_env_def no_env_def
        fetch_view_source_def view_source_url_def chapter_page_url_def split_beta)
  then have "fst (download_chapter broken_env empty_world library 1156) = Inl JSONDecodeError"
    by (cases "fetch_chapter_data broken_env empty_world 1156 site")
       (simp add: download_chapter_def library_def)
  then have "fst (download_endpoint broken_env empty_world library 1156) = 404"
    by (cases "download_chapter broken_env empty_world library 1156")
       (simp add: download_endpoint_def)
  with f show ?thesis by simp
qed

section \<open>Properties of the file system\<close>





lemma ancestors_Nil: "ancestors [] = []"
  by (simp add: ancestors_def)


lemma ancestors_nonempty: "a \<in> set (ancestors q) \<Longrightarrow> a \<noteq> []"
  by (cases q) (auto simp: ancestors_def)










section \<open>Properties of the asset download\<close>









section \<open>Properties of the chapter download\<close>


















lemma path_join_same: "path_join p f = p \<longleftrightarrow> f = [] \<or> f = ''.''"
  by (simp add: path_join_def)
















section \<open>Repeating a chapter download\<close>


lemma node_at_put:
  "resolve q \<noteq> [] \<Longrightarrow>
   node_at (put_node w q v) p = (if resolve p = resolve q then Some v else node_at w p)"
  by (simp add: node_at_def put_node_def Let_def)


lemma node_at_files_cong: "files v = files w \<Longrightarrow> node_at v p = node_at w p"
  by (simp add: node_at_def Let_def)



lemma mkdir_parents_files_cong:
  "files v = files w \<Longrightarrow> mkdir_parents w p = Inr w \<Longrightarrow> mkdir_parents v p = Inr v"
  by (auto simp: mkdir_parents_def Let_def split: if_splits dest: arg_cong [where f = files])







end
